theory Spec2Isabelle
  imports Main "HOL-Library.Sublist" "HOL-Library.Word"
begin

section \<open>provider-ssh: script execution over SSH and the Script controller\<close>

text \<open>
  A shallow embedding of \<^verbatim>\<open>internal/client/ssh.go\<close> (the SSH client, variable
  substitution and script execution) and of the \<^verbatim>\<open>Observe\<close> method of
  \<^verbatim>\<open>internal/controller/script/script.go\<close> (the variant with the exit-code
  taxonomy). Go strings are byte sequences, so they are \<^typ>\<open>string\<close> here.
\<close>

subsection \<open>Variable substitution\<close>

text \<open>The \<^verbatim>\<open>v1alpha1.Variable\<close> type: a name and a value.\<close>

record Variable =
  Name :: string
  Value :: string

text \<open>
  \<^verbatim>\<open>strings.ReplaceAll(s, old, new)\<close> for a non-empty \<^verbatim>\<open>old\<close>: the
  non-overlapping occurrences of \<^verbatim>\<open>old\<close>, found from left to right, are each replaced
  by \<^verbatim>\<open>new\<close>; the text of \<^verbatim>\<open>new\<close> is emitted and scanning resumes after the
  occurrence. The empty pattern (where Go inserts at rune boundaries) has no
  equation: \<^verbatim>\<open>ReplaceVariables\<close> only passes patterns that start with two braces.
\<close>

fun ReplaceAll :: "string \<Rightarrow> string \<Rightarrow> string \<Rightarrow> string" where
  "ReplaceAll [] (p # ps) new = []"
| "ReplaceAll (c # cs) (p # ps) new =
     (if prefix (p # ps) (c # cs)
      then new @ ReplaceAll (drop (length ps) cs) (p # ps) new
      else c # ReplaceAll cs (p # ps) new)"

text \<open>The pattern \<^verbatim>\<open>"{{" + v.Name + "}}"\<close> built in the loop body.\<close>

definition placeholder :: "string \<Rightarrow> string" where
  "placeholder n = ''{{'' @ n @ ''}}''"

text \<open>
  \<^verbatim>\<open>ReplaceVariables\<close>: the \<^verbatim>\<open>for _, v := range vars\<close> loop, which rewrites the
  script once per variable, in list order.
\<close>

fun ReplaceVariables :: "string \<Rightarrow> Variable list \<Rightarrow> string" where
  "ReplaceVariables script [] = script"
| "ReplaceVariables script (v # vars) =
     ReplaceVariables (ReplaceAll script (placeholder (Name v)) (Value v)) vars"

text \<open>
  Vocabulary for the properties of substitution: a name without brace characters,
  and a text \<^verbatim>\<open>pre\<close> in which no occurrence of \<^verbatim>\<open>old\<close> runs over into the
  following text \<^verbatim>\<open>mid\<close>.
\<close>

definition plainName :: "string \<Rightarrow> bool" where
  "plainName n \<longleftrightarrow> CHR ''{'' \<notin> set n \<and> CHR ''}'' \<notin> set n"

definition straddle_free :: "string \<Rightarrow> string \<Rightarrow> string \<Rightarrow> bool" where
  "straddle_free old pre mid \<longleftrightarrow>
     (\<forall>us vs. pre = us @ vs \<longrightarrow> vs \<noteq> [] \<longrightarrow> prefix old (vs @ mid) \<longrightarrow> prefix old vs)"

subsection \<open>Errors, credentials and the SSH library boundary\<close>

text \<open>
  Go \<^verbatim>\<open>error\<close> values. The controller distinguishes \<^verbatim>\<open>*ssh.ExitError\<close> by a type
  assertion on the error itself, so an error wrapped by \<^verbatim>\<open>errors.Wrap\<close> is a
  different value from the error inside it.
\<close>

datatype error =
    ExitError int
  | Err string
  | Wrap error string

text \<open>The \<^verbatim>\<open>Config\<close> struct decoded from the credential payload.\<close>

record Config =
  RemoteHostIP :: string
  RemoteHostPort :: string
  Username :: string
  Password :: string
  PrivateKey :: string
  KnownHosts :: string

datatype Signer = Signer string

datatype AuthMethod =
    PublicKeys "Signer option"
  | PasswordAuth string

datatype HostKeyCallback =
    KnownHostsCallback string
  | InsecureIgnoreHostKey

text \<open>The fields of \<^verbatim>\<open>ssh.ClientConfig\<close> that \<^verbatim>\<open>NewSSHClient\<close> sets.\<close>

record ClientConfig =
  User :: string
  Auth :: "AuthMethod list"
  HostKeyCallback :: HostKeyCallback

datatype Client = Client nat

text \<open>
  How a remote command ended: with an exit status, or without one (the session or the
  connection failed, or the server sent no status).
\<close>

datatype exit_outcome =
    Exited int
  | NoExit string

text \<open>
  What the code does to the outside world, in the order it does it. A \<^verbatim>\<open>Log\<close>
  carries the message or format string as written in the source.
\<close>

datatype event =
    Log string
  | LogError error string
  | Dial nat string ClientConfig
  | Sleep nat
  | NewSession
  | CloseSession
  | SftpNewClient
  | SftpCreate string
  | SftpWrite string string
  | SftpClose string
  | Run string

text \<open>
  The library and the network are parameters of the model: what each call made by
  the code returns. \<^verbatim>\<open>ssh_Dial\<close> is indexed by the attempt that makes the call;
  the three \<^verbatim>\<open>client.NewSession\<close> calls of one \<^verbatim>\<open>ExecuteScript\<close> are named by
  the function that makes them. \<^verbatim>\<open>session_Run\<close> gives, for a command, the captured
  standard output and standard error and how the command ended. \<^verbatim>\<open>rand_Read\<close> gives
  the bytes delivered by \<^verbatim>\<open>crypto/rand\<close> for a buffer of the given length (executions
  in which it fails, where \<^verbatim>\<open>randomFileName\<close> panics, are outside the model).
\<close>

record ssh_env =
  json_Unmarshal :: "string \<Rightarrow> error + Config"
  knownhosts_New :: "string \<Rightarrow> error + HostKeyCallback"
  base64_DecodeString :: "string \<Rightarrow> string \<times> error option"
  ssh_ParsePrivateKey :: "string \<Rightarrow> error + Signer"
  ssh_Dial :: "nat \<Rightarrow> string \<Rightarrow> ClientConfig \<Rightarrow> error + Client"
  rand_Read :: "nat \<Rightarrow> 8 word list"
  sendFile_NewSession :: "error option"
  sftp_NewClient :: "error option"
  sftp_Create :: "string \<Rightarrow> error option"
  sftp_WriteTo :: "string \<Rightarrow> string \<Rightarrow> error option"
  ExecuteScript_NewSession :: "error option"
  session_Run :: "string \<Rightarrow> string \<times> string \<times> exit_outcome"
  cleanUpTempFile_NewSession :: "error option"

text \<open>
  The error returned by \<^verbatim>\<open>session.Run\<close>, as documented by the SSH library:
  \<^verbatim>\<open>nil\<close> when the command exits with status zero, an \<^verbatim>\<open>*ssh.ExitError\<close> with
  the status when it exits unsuccessfully, another error when no status arrives.
\<close>

fun session_Run_err :: "exit_outcome \<Rightarrow> error option" where
  "session_Run_err (Exited n) = (if n = 0 then None else Some (ExitError n))"
| "session_Run_err (NoExit msg) = Some (Err msg)"

subsection \<open>\<^verbatim>\<open>isValidIPv4\<close>\<close>

text \<open>
  The two regular expressions, as recognisers on the dot-separated labels of the
  input: \<^verbatim>\<open>^(\d{1,3}\.){3}\d{1,3}$\<close> is four labels of one to three digits, and
  \<^verbatim>\<open>^[^\.]+(\.[^\.]+)+$\<close> is at least two labels, none of them empty.
\<close>

definition isDigit :: "char \<Rightarrow> bool" where
  "isDigit c \<longleftrightarrow> c \<in> set ''0123456789''"

fun splitDots :: "string \<Rightarrow> string list" where
  "splitDots [] = [[]]"
| "splitDots (c # cs) =
     (if c = CHR ''.'' then [] # splitDots cs
      else (case splitDots cs of l # ls \<Rightarrow> (c # l) # ls | [] \<Rightarrow> [[c]]))"

definition ipv4Regex_MatchString :: "string \<Rightarrow> bool" where
  "ipv4Regex_MatchString s \<longleftrightarrow>
     length (splitDots s) = 4 \<and>
     list_all (\<lambda>l. 1 \<le> length l \<and> length l \<le> 3 \<and> list_all isDigit l) (splitDots s)"

definition urlRegex_MatchString :: "string \<Rightarrow> bool" where
  "urlRegex_MatchString s \<longleftrightarrow>
     2 \<le> length (splitDots s) \<and> list_all (\<lambda>l. l \<noteq> []) (splitDots s)"

definition isValidIPv4 :: "string \<Rightarrow> bool" where
  "isValidIPv4 inputAddress \<longleftrightarrow>
     ipv4Regex_MatchString inputAddress \<or> urlRegex_MatchString inputAddress"

subsection \<open>\<^verbatim>\<open>NewSSHClient\<close>\<close>

text \<open>
  The \<^verbatim>\<open>switch\<close> that chooses the authentication method: the private key is
  looked at first, the password only when there is no private key, and with
  neither there is no method. A key that fails to decode or to parse is logged
  and the method is built all the same, from whatever \<^verbatim>\<open>ssh.ParsePrivateKey\<close>
  returned (no signer on failure).
\<close>

definition authSwitch :: "ssh_env \<Rightarrow> Config \<Rightarrow> (AuthMethod list \<times> event list) option" where
  "authSwitch env kc =
     (if PrivateKey kc \<noteq> [] then
        (let (privateKeyBytes, derr) = base64_DecodeString env (PrivateKey kc);
             tr1 = (case derr of
                      Some e \<Rightarrow> [LogError e ''Error decoding base64 private key'']
                    | None \<Rightarrow> []);
             parsed = ssh_ParsePrivateKey env privateKeyBytes;
             tr2 = (case parsed of
                      Inl e \<Rightarrow> [LogError e ''Failed to parse private key'']
                    | Inr s \<Rightarrow> []);
             signer = (case parsed of Inl e \<Rightarrow> None | Inr s \<Rightarrow> Some s)
         in Some ([PublicKeys signer], tr1 @ tr2))
      else if Password kc \<noteq> [] then Some ([PasswordAuth (Password kc)], [])
      else None)"

text \<open>
  The retry loop \<^verbatim>\<open>for attempts := 1; attempts <= maxAttempts; attempts++\<close>. The
  state is the pair \<^verbatim>\<open>(client, err)\<close> that each \<^verbatim>\<open>ssh.Dial\<close> assigns, and the
  events so far.
\<close>

function dialLoop ::
  "ssh_env \<Rightarrow> string \<Rightarrow> ClientConfig \<Rightarrow> nat \<Rightarrow> nat \<Rightarrow>
   (Client option \<times> error option) \<times> event list \<Rightarrow> (Client option \<times> error option) \<times> event list"
where
  "dialLoop env remoteHost config maxAttempts attempts (st, tr) =
     (if attempts \<le> maxAttempts then
        (case ssh_Dial env attempts remoteHost config of
           Inr c \<Rightarrow> ((Some c, None), tr @ [Dial attempts remoteHost config])
         | Inl e \<Rightarrow>
             dialLoop env remoteHost config maxAttempts (attempts + 1)
               ((None, Some e),
                tr @ [Dial attempts remoteHost config,
                      Log ''Failed to dial: %s with username %s, attempt %d/%d, error: %s'']
                   @ (if attempts < maxAttempts then [Sleep 2] else [])))
      else (st, tr))"
  by pat_completeness auto
termination
  by (relation "measure (\<lambda>(env, h, c, m, a, s). Suc m - a)") auto

declare dialLoop.simps [simp del]

definition NewSSHClient :: "ssh_env \<Rightarrow> string \<Rightarrow> (Client option \<times> error option) \<times> event list" where
  "NewSSHClient env data =
     (case json_Unmarshal env data of
        Inl e \<Rightarrow> ((None, Some (Wrap e ''Cannot parse credentials'')), [])
      | Inr kc \<Rightarrow>
          if Username kc = [] then
            ((None, Some (Err ''Username key not found in the data'')), [])
          else if RemoteHostIP kc = [] then
            ((None, Some (Err ''Remote host key not found in the data'')), [])
          else if \<not> isValidIPv4 (RemoteHostIP kc) then
            ((None, Some (Err (''Remote host address is not a valid: '' @ RemoteHostIP kc))), [])
          else
            (let tr0 = (if RemoteHostPort kc = []
                        then [Log ''Remote host port key not found in the data, using default port 22'']
                        else []);
                 port = (if RemoteHostPort kc = [] then ''22'' else RemoteHostPort kc)
             in case (if KnownHosts kc \<noteq> [] then knownhosts_New env (KnownHosts kc)
                      else Inr InsecureIgnoreHostKey) of
                  Inl e \<Rightarrow> ((None, Some (Wrap e ''Failed to create known hosts callback'')), tr0)
                | Inr knownHostsCallback \<Rightarrow>
                    (case authSwitch env kc of
                       None \<Rightarrow>
                         ((None, Some (Err ''Private Key or Password key not found in the data.'')), tr0)
                     | Some (auth, tr1) \<Rightarrow>
                         (let config = \<lparr>User = Username kc, Auth = auth,
                                        HostKeyCallback = knownHostsCallback\<rparr>;
                              remoteHost = RemoteHostIP kc @ '':'' @ port;
                              ((client, err), tr2) =
                                dialLoop env remoteHost config 3 1 ((None, None), tr0 @ tr1)
                          in case err of
                               Some e \<Rightarrow>
                                 ((None, Some e),
                                  tr2 @ [Log ''All %d attempts to connect to %s failed.\<newline>''])
                             | None \<Rightarrow> ((client, None), tr2)))))"

subsection \<open>Staging and running a script\<close>

definition hexDigit :: "nat \<Rightarrow> char" where
  "hexDigit n = ''0123456789abcdef'' ! (n mod 16)"

fun hex_EncodeToString :: "8 word list \<Rightarrow> string" where
  "hex_EncodeToString [] = []"
| "hex_EncodeToString (b # bs) =
     hexDigit (unat b div 16) # hexDigit (unat b mod 16) # hex_EncodeToString bs"

definition randomFileName :: "ssh_env \<Rightarrow> nat \<Rightarrow> string" where
  "randomFileName env len = ''tmp.'' @ hex_EncodeToString (rand_Read env len)"

text \<open>
  \<^verbatim>\<open>sendFile\<close>: the deferred closes run when the function returns, last
  deferred first. An event records an operation that succeeded.
\<close>

definition sendFile :: "ssh_env \<Rightarrow> Client \<Rightarrow> string \<Rightarrow> string \<Rightarrow> error option \<times> event list" where
  "sendFile env client fileContent remotePath =
     (case sendFile_NewSession env of
        Some e \<Rightarrow> (Some e, [])
      | None \<Rightarrow>
          (case sftp_NewClient env of
             Some e \<Rightarrow> (Some e, [NewSession, CloseSession])
           | None \<Rightarrow>
               (case sftp_Create env remotePath of
                  Some e \<Rightarrow>
                    (Some (Wrap e ''Failed to create remote file''),
                     [NewSession, SftpNewClient, CloseSession, CloseSession])
                | None \<Rightarrow>
                    (case sftp_WriteTo env remotePath fileContent of
                       Some e \<Rightarrow>
                         (Some (Wrap e ''Failed to write to remote file''),
                          [NewSession, SftpNewClient, SftpCreate remotePath,
                           SftpClose remotePath, CloseSession, CloseSession])
                     | None \<Rightarrow>
                         (None,
                          [NewSession, SftpNewClient, SftpCreate remotePath,
                           SftpWrite remotePath fileContent,
                           SftpClose remotePath, CloseSession, CloseSession])))))"

definition cleanUpTempFile :: "ssh_env \<Rightarrow> Client \<Rightarrow> string \<Rightarrow> error option \<times> event list" where
  "cleanUpTempFile env client tmpFile =
     (case cleanUpTempFile_NewSession env of
        Some e \<Rightarrow> (Some e, [])
      | None \<Rightarrow>
          (let cmd = ''rm -f '' @ tmpFile
           in (session_Run_err (snd (snd (session_Run env cmd))),
               [NewSession, Run cmd, CloseSession])))"

text \<open>The command line built from the staged file's path and the sudo flag.\<close>

definition scriptCommand :: "string \<Rightarrow> bool \<Rightarrow> string" where
  "scriptCommand remoteFile suEnabled =
     (let cmdExec = ''chmod +x '' @ remoteFile;
          cmd = (if suEnabled then ''sudo '' else [])
      in cmdExec @ '' && '' @ cmd @ remoteFile)"

text \<open>
  \<^verbatim>\<open>ExecuteScript\<close> returns \<^verbatim>\<open>(stdout, stderr, err)\<close>. When \<^verbatim>\<open>session.Run\<close>
  returns an error, the function returns at once with an empty first component;
  the clean-up of the staged file comes after that return.
\<close>

definition ExecuteScript ::
  "ssh_env \<Rightarrow> Client \<Rightarrow> string \<Rightarrow> Variable list \<Rightarrow> bool \<Rightarrow>
   (string \<times> string \<times> error option) \<times> event list"
where
  "ExecuteScript env client sc vars suEnabled =
     (let sc1 = ReplaceVariables sc vars;
          remoteFile = ''/tmp/'' @ randomFileName env 8;
          (sendErr, tr1) = sendFile env client sc1 remoteFile
      in case sendErr of
           Some e \<Rightarrow> (([], [], Some (Wrap e ''Failed to send script to remote host'')), tr1)
         | None \<Rightarrow>
             (let cmd = scriptCommand remoteFile suEnabled
              in case ExecuteScript_NewSession env of
                   Some e \<Rightarrow>
                     (([], [], Some (Wrap e ''Failed to create session'')),
                      tr1 @ [LogError e ''Failed to create session''])
                 | None \<Rightarrow>
                     (let (stdoutBuf, stderrBuf, ending) = session_Run env cmd
                      in case session_Run_err ending of
                           Some e \<Rightarrow>
                             (([], stderrBuf, Some e),
                              tr1 @ [NewSession, Run cmd, CloseSession])
                         | None \<Rightarrow>
                             (let (cerr, tr2) = cleanUpTempFile env client remoteFile;
                                  tr3 = (case cerr of
                                           Some e \<Rightarrow>
                                             [LogError e ''Failed to clean up temporary file'']
                                         | None \<Rightarrow> [])
                              in ((stdoutBuf, stderrBuf, None),
                                  tr1 @ [NewSession, Run cmd] @ tr2 @ tr3 @
                                  [Log ''Script executed, len(stdout): %d, len(stderr): %d'',
                                   CloseSession])))))"

subsection \<open>The Script resource and \<^verbatim>\<open>Observe\<close>\<close>

text \<open>
  The parts of the \<^verbatim>\<open>Script\<close> resource that the controller reads and writes:
  \<^verbatim>\<open>cr.Spec.ForProvider\<close>, \<^verbatim>\<open>cr.Status.AtProvider\<close> and the conditions of
  \<^verbatim>\<open>cr.Status\<close>. The message of a condition is kept as the error whose text it is;
  transition times are left out.
\<close>

record ScriptParameters =
  Variables :: "Variable list"
  InitScript :: string
  StatusCheckScript :: string
  UpdateScript :: string
  CleanupScript :: string
  SudoEnabled :: bool

record ScriptObservation =
  Stdout :: string
  Stderr :: string
  StatusCode :: int

record Condition =
  Type :: string
  Status :: string
  Reason :: string
  Message :: "error option"

record Script =
  ForProvider :: ScriptParameters
  AtProvider :: ScriptObservation
  Conditions :: "Condition list"

datatype Managed =
    ScriptResource Script
  | OtherResource

record ExternalObservation =
  ResourceExists :: bool
  ResourceUpToDate :: bool
  ConnectionDetails :: "(string \<times> string) list option"

datatype 'a outcome =
    Panic
  | Returned 'a

text \<open>The conditions of the runtime library that the controller uses.\<close>

definition Available :: Condition where
  "Available = \<lparr>Type = ''Ready'', Status = ''True'', Reason = ''Available'', Message = None\<rparr>"

definition Deleting :: Condition where
  "Deleting = \<lparr>Type = ''Ready'', Status = ''False'', Reason = ''Deleting'', Message = None\<rparr>"

definition ReconcileError :: "error \<Rightarrow> Condition" where
  "ReconcileError err =
     \<lparr>Type = ''Synced'', Status = ''False'', Reason = ''ReconcileError'', Message = Some err\<rparr>"

definition GetCondition :: "Script \<Rightarrow> string \<Rightarrow> Condition" where
  "GetCondition cr ct =
     (case find (\<lambda>c. Type c = ct) (Conditions cr) of
        Some c \<Rightarrow> c
      | None \<Rightarrow> \<lparr>Type = ct, Status = ''Unknown'', Reason = [], Message = None\<rparr>)"

definition SetConditions :: "Script \<Rightarrow> Condition \<Rightarrow> Script" where
  "SetConditions cr new =
     (if list_ex (\<lambda>c. Type c = Type new) (Conditions cr)
      then cr\<lparr>Conditions := map (\<lambda>c. if Type c = Type new then new else c) (Conditions cr)\<rparr>
      else cr\<lparr>Conditions := Conditions cr @ [new]\<rparr>)"

definition errNotScript :: string where
  "errNotScript = ''managed resource is not a Script custom resource''"

definition noObservation :: ExternalObservation where
  "noObservation = \<lparr>ResourceExists = False, ResourceUpToDate = False, ConnectionDetails = None\<rparr>"

text \<open>
  \<^verbatim>\<open>Observe\<close> returns the observation and the error, the resource as it has been
  updated, and the events. \<^verbatim>\<open>service\<close> is the field of \<^verbatim>\<open>external\<close>; the type
  assertion \<^verbatim>\<open>c.service.(*ssh.Client)\<close> panics when it holds no client. The exit
  status is taken from an \<^verbatim>\<open>*ssh.ExitError\<close> and is 1 for every other error.
\<close>

definition exitStatusOf :: "error \<Rightarrow> int" where
  "exitStatusOf e = (case e of ExitError n \<Rightarrow> n | Err m \<Rightarrow> 1 | Wrap w m \<Rightarrow> 1)"

definition exitStatusLog :: "error \<Rightarrow> event list" where
  "exitStatusLog e =
     (case e of
        ExitError n \<Rightarrow> []
      | Err m \<Rightarrow> [Log ''[%s] Unable to detect exit code'']
      | Wrap w m \<Rightarrow> [Log ''[%s] Unable to detect exit code''])"

definition Observe ::
  "ssh_env \<Rightarrow> Client option \<Rightarrow> Managed \<Rightarrow>
   (ExternalObservation \<times> error option) outcome \<times> Managed \<times> event list"
where
  "Observe env service mg =
     (case mg of
        OtherResource \<Rightarrow>
          (Returned (noObservation, Some (Err errNotScript)), mg, [Log ''[%s] Observing...''])
      | ScriptResource cr \<Rightarrow>
          (let cd = GetCondition cr (Type Deleting)
           in if Type cd = ''Ready'' \<and> Status cd = ''False'' \<and> Reason cd = ''Deleting'' then
                (Returned (noObservation\<lparr>ResourceExists := False\<rparr>, None), mg,
                 [Log ''[%s] Observing...'',
                  Log ''[%s] Observing failed. Resource is being deleted.''])
              else if StatusCheckScript (ForProvider cr) \<noteq> [] then
                (case service of
                   None \<Rightarrow> (Panic, mg, [Log ''[%s] Observing...''])
                 | Some client \<Rightarrow>
                     (let ((stdout, stderr, err), tr) =
                            ExecuteScript env client (StatusCheckScript (ForProvider cr))
                              (Variables (ForProvider cr)) (SudoEnabled (ForProvider cr))
                      in case err of
                           Some e \<Rightarrow>
                             (let exitStatus = exitStatusOf e;
                                  cr1 = cr\<lparr>AtProvider :=
                                           \<lparr>Stdout = stdout, Stderr = stderr, StatusCode = exitStatus\<rparr>\<rparr>;
                                  evs = [Log ''[%s] Observing...''] @ tr @ exitStatusLog e @
                                        [Log ''[%s] Observing failed. Exit code: %d'']
                              in if exitStatus = 1 then
                                   (Returned (noObservation,
                                              Some (Wrap e ''Script failed with exit code 1.'')),
                                    ScriptResource
                                      (SetConditions cr1
                                         (ReconcileError (Wrap e ''Script failed with exit code 1.''))),
                                    evs)
                                 else if exitStatus = 100 then
                                   (Returned (noObservation\<lparr>ResourceExists := False\<rparr>, None),
                                    ScriptResource cr1, evs)
                                 else
                                   (Returned (noObservation\<lparr>ResourceExists := True,
                                                ResourceUpToDate := False\<rparr>, None),
                                    ScriptResource cr1, evs))
                         | None \<Rightarrow>
                             (Returned (noObservation\<lparr>ResourceExists := True,
                                          ResourceUpToDate := True\<rparr>, None),
                              ScriptResource
                                (SetConditions
                                   (cr\<lparr>AtProvider := (AtProvider cr)\<lparr>Stdout := stdout, Stderr := stderr\<rparr>\<rparr>)
                                   Available),
                              [Log ''[%s] Observing...''] @ tr @
                              [Log ''[%s] Observing was [okay]. Update the status.''])))
              else
                (Returned (\<lparr>ResourceExists = True, ResourceUpToDate = True,
                            ConnectionDetails = Some []\<rparr>, None),
                 mg,
                 [Log ''[%s] Observing...'', Log ''[%s] Observing, no status check script.''])))"

subsection \<open>Vocabulary of the properties\<close>

text \<open>The connection attempts recorded in a list of events, by their configuration.\<close>

fun dialConfigs :: "event list \<Rightarrow> ClientConfig list" where
  "dialConfigs [] = []"
| "dialConfigs (Dial n h c # es) = c # dialConfigs es"
| "dialConfigs (e # es) = dialConfigs es"

text \<open>The events that reach the remote host: everything but the log entries.\<close>

fun remoteEvents :: "event list \<Rightarrow> event list" where
  "remoteEvents [] = []"
| "remoteEvents (Log m # es) = remoteEvents es"
| "remoteEvents (LogError e m # es) = remoteEvents es"
| "remoteEvents (e # es) = e # remoteEvents es"

text \<open>
  The checks of \<^verbatim>\<open>NewSSHClient\<close> that come before the authentication method is
  chosen: the payload parses, user name and host are present, the host has an
  accepted form, and the known-hosts material, when given, is accepted.
\<close>

definition passesChecks :: "ssh_env \<Rightarrow> string \<Rightarrow> bool" where
  "passesChecks env data =
     (case json_Unmarshal env data of
        Inl e \<Rightarrow> False
      | Inr kc \<Rightarrow>
          Username kc \<noteq> [] \<and> RemoteHostIP kc \<noteq> [] \<and> isValidIPv4 (RemoteHostIP kc) \<and>
          (if KnownHosts kc \<noteq> []
           then (case knownhosts_New env (KnownHosts kc) of Inl e \<Rightarrow> False | Inr cb \<Rightarrow> True)
           else True))"

text \<open>The signer that \<^verbatim>\<open>ssh.ParsePrivateKey\<close> returns for the decoded key, if any.\<close>

definition parsedSigner :: "ssh_env \<Rightarrow> Config \<Rightarrow> Signer option" where
  "parsedSigner env kc =
     (case ssh_ParsePrivateKey env (fst (base64_DecodeString env (PrivateKey kc))) of
        Inl e \<Rightarrow> None
      | Inr s \<Rightarrow> Some s)"

text \<open>
  The specification's words for the connection retry: the connection of the first
  successful attempt out of three, the error of the third attempt when all fail.
\<close>

definition spec_connect :: "(nat \<Rightarrow> error + Client) \<Rightarrow> Client option \<times> error option" where
  "spec_connect d =
     (case d 1 of
        Inr c \<Rightarrow> (Some c, None)
      | Inl e1 \<Rightarrow>
          (case d 2 of
             Inr c \<Rightarrow> (Some c, None)
           | Inl e2 \<Rightarrow>
               (case d 3 of
                  Inr c \<Rightarrow> (Some c, None)
                | Inl e3 \<Rightarrow> (None, Some e3))))"

definition spec_attempts :: "(nat \<Rightarrow> error + Client) \<Rightarrow> nat" where
  "spec_attempts d =
     (case d 1 of
        Inr c \<Rightarrow> 1
      | Inl e1 \<Rightarrow> (case d 2 of Inr c \<Rightarrow> 2 | Inl e2 \<Rightarrow> 3))"

text \<open>
  The staged path of one \<^verbatim>\<open>ExecuteScript\<close> call, the condition that the script
  was uploaded and its command session opened, and how the script's command ended.
\<close>

definition stagedFile :: "ssh_env \<Rightarrow> string" where
  "stagedFile env = ''/tmp/'' @ randomFileName env 8"

definition staged :: "ssh_env \<Rightarrow> string \<Rightarrow> Variable list \<Rightarrow> bool" where
  "staged env sc vars \<longleftrightarrow>
     sendFile_NewSession env = None \<and> sftp_NewClient env = None \<and>
     sftp_Create env (stagedFile env) = None \<and>
     sftp_WriteTo env (stagedFile env) (ReplaceVariables sc vars) = None \<and>
     ExecuteScript_NewSession env = None"

definition scriptRun :: "ssh_env \<Rightarrow> bool \<Rightarrow> string \<times> string \<times> exit_outcome" where
  "scriptRun env suEnabled = session_Run env (scriptCommand (stagedFile env) suEnabled)"

text \<open>The guard of \<^verbatim>\<open>Observe\<close> for a resource that is being deleted.\<close>

definition beingDeleted :: "Script \<Rightarrow> bool" where
  "beingDeleted cr \<longleftrightarrow>
     Type (GetCondition cr (Type Deleting)) = ''Ready'' \<and>
     Status (GetCondition cr (Type Deleting)) = ''False'' \<and>
     Reason (GetCondition cr (Type Deleting)) = ''Deleting''"




subsection \<open>Sample inputs\<close>

text \<open>
  A payload in the form of the README's example, with both a password and a
  private key, and a host that accepts the first connection attempt, stores the
  file and runs every command with exit status 0 and no output.
\<close>

definition sampleConfig :: Config where
  "sampleConfig =
     \<lparr>RemoteHostIP = ''10.29.30.5'', RemoteHostPort = ''22'', Username = ''ubuntu'',
      Password = ''password'', PrivateKey = ''a2V5'', KnownHosts = []\<rparr>"

definition sampleEnv :: ssh_env where
  "sampleEnv =
     \<lparr>json_Unmarshal = (\<lambda>d. Inr sampleConfig),
      knownhosts_New = (\<lambda>f. Inr (KnownHostsCallback f)),
      base64_DecodeString = (\<lambda>s. (''key'', None)),
      ssh_ParsePrivateKey = (\<lambda>b. Inr (Signer b)),
      ssh_Dial = (\<lambda>n h c. Inr (Client n)),
      rand_Read = (\<lambda>n. replicate n 0),
      sendFile_NewSession = None,
      sftp_NewClient = None,
      sftp_Create = (\<lambda>p. None),
      sftp_WriteTo = (\<lambda>p c. None),
      ExecuteScript_NewSession = None,
      session_Run = (\<lambda>cmd. ([], [], Exited 0)),
      cleanUpTempFile_NewSession = None\<rparr>"

definition sampleScript :: Script where
  "sampleScript =
     \<lparr>ForProvider =
        \<lparr>Variables = [\<lparr>Name = ''F'', Value = ''/tmp/new_file.txt''\<rparr>],
         InitScript = ''touch {{F}}'',
         StatusCheckScript = ''test -f {{F}}'',
         UpdateScript = [],
         CleanupScript = ''rm {{F}}'',
         SudoEnabled = False\<rparr>,
      AtProvider = \<lparr>Stdout = [], Stderr = [], StatusCode = 0\<rparr>,
      Conditions = []\<rparr>"

section \<open>Properties of variable substitution\<close>

lemma placeholder_Cons: "placeholder n = CHR ''{'' # CHR ''{'' # n @ ''}}''"
  by (simp add: placeholder_def)

lemma placeholder_ne: "placeholder n \<noteq> []"
  by (simp add: placeholder_def)

lemma ReplaceAll_Nil: "old \<noteq> [] \<Longrightarrow> ReplaceAll [] old new = []"
  by (cases old) simp_all

lemma ReplaceAll_Cons:
  "old \<noteq> [] \<Longrightarrow> ReplaceAll (c # cs) old new =
     (if prefix old (c # cs) then new @ ReplaceAll (drop (length old) (c # cs)) old new
      else c # ReplaceAll cs old new)"
  by (cases old) simp_all

lemma ReplaceAll_hit:
  "old \<noteq> [] \<Longrightarrow> ReplaceAll (old @ post) old new = new @ ReplaceAll post old new"
  by (cases old) simp_all

text \<open>A text without any occurrence of the pattern is returned as it is.\<close>

lemma ReplaceAll_no_match:
  "old \<noteq> [] \<Longrightarrow> \<not> sublist old s \<Longrightarrow> ReplaceAll s old new = s"
proof (induction s)
  case Nil
  then show ?case by (simp add: ReplaceAll_Nil)
next
  case (Cons c cs)
  from Cons.prems have "\<not> prefix old (c # cs)" and "\<not> sublist old cs"
    by (auto simp: sublist_Cons_right)
  with Cons show ?case by (simp add: ReplaceAll_Cons)
qed

lemma straddle_free_suffix:
  "straddle_free old (us @ vs) mid \<Longrightarrow> straddle_free old vs mid"
  unfolding straddle_free_def by (metis append.assoc)

text \<open>
  Replacement distributes over a concatenation when no occurrence of the pattern
  runs across the seam. Induction on the length of the left part, following the
  two branches of the scan.
\<close>

lemma ReplaceAll_append:
  "old \<noteq> [] \<Longrightarrow> straddle_free old pre mid \<Longrightarrow>
   ReplaceAll (pre @ mid) old new = ReplaceAll pre old new @ ReplaceAll mid old new"
proof (induction pre rule: length_induct)
  case (1 pre)
  show ?case
  proof (cases pre)
    case Nil
    with 1 show ?thesis by (simp add: ReplaceAll_Nil)
  next
    case (Cons c cs)
    show ?thesis
    proof (cases "prefix old (pre @ mid)")
      case True
      with 1(3) Cons have pp: "prefix old pre"
        unfolding straddle_free_def by (metis append_Nil list.distinct(1))
      then obtain r where r: "pre = old @ r" by (auto simp: prefix_def)
      have sf: "straddle_free old r mid" using 1(3) r straddle_free_suffix by blast
      have len: "length r < length pre" using r 1(2) by simp
      have ih: "ReplaceAll (r @ mid) old new = ReplaceAll r old new @ ReplaceAll mid old new"
        using 1(1) len sf 1(2) by blast
      have a: "ReplaceAll (pre @ mid) old new = new @ ReplaceAll (r @ mid) old new"
        using r 1(2) ReplaceAll_hit[of old "r @ mid" new] by simp
      have b: "ReplaceAll pre old new = new @ ReplaceAll r old new"
        using r 1(2) ReplaceAll_hit[of old r new] by simp
      show ?thesis using a b ih by simp
    next
      case False
      then have np: "\<not> prefix old pre" by (meson prefix_order.trans prefix_append prefixI)
      have sf: "straddle_free old cs mid"
        using 1(3) Cons straddle_free_suffix[of old "[c]" cs mid] by simp
      have ih: "ReplaceAll (cs @ mid) old new = ReplaceAll cs old new @ ReplaceAll mid old new"
        using 1(1) Cons sf 1(2) by simp
      show ?thesis using False np Cons ih 1(2) by (simp add: ReplaceAll_Cons)
    qed
  qed
qed

lemma ReplaceAll_skip:
  assumes "old \<noteq> []"
    and "\<And>us vs. pre = us @ vs \<Longrightarrow> vs \<noteq> [] \<Longrightarrow> \<not> prefix old (vs @ mid)"
  shows "ReplaceAll (pre @ mid) old new = pre @ ReplaceAll mid old new"
proof -
  have sf: "straddle_free old pre mid" unfolding straddle_free_def using assms(2) by blast
  have "\<not> sublist old pre"
  proof
    assume "sublist old pre"
    then obtain ps ss where "pre = ps @ old @ ss" by (auto simp: sublist_def)
    with assms(1) assms(2)[of ps "old @ ss"] show False by simp
  qed
  with assms(1) have "ReplaceAll pre old new = pre" by (rule ReplaceAll_no_match)
  with ReplaceAll_append[OF assms(1) sf] show ?thesis by simp
qed

subsection \<open>Placeholders of names without braces do not overlap\<close>

lemma plain_tail_prefix:
  "plainName a \<Longrightarrow> plainName m \<Longrightarrow> prefix (a @ ''}}'') (m @ ''}}'' @ post) \<Longrightarrow> a = m"
proof (induction a arbitrary: m)
  case Nil
  then show ?case by (cases m) (auto simp: plainName_def)
next
  case (Cons x a)
  then show ?case by (cases m) (auto simp: plainName_def)
qed

lemma placeholder_prefix_same:
  "plainName a \<Longrightarrow> plainName m \<Longrightarrow> prefix (placeholder a) (placeholder m @ post) \<Longrightarrow> a = m"
  using plain_tail_prefix[of a m post] by (simp add: placeholder_def)

text \<open>No placeholder starts strictly inside the placeholder of a plain name.\<close>

lemma placeholder_inside:
  assumes "plainName m" "placeholder m = us @ vs" "us \<noteq> []" "vs \<noteq> []"
  shows "\<not> prefix (placeholder a) (vs @ post)"
proof
  assume p: "prefix (placeholder a) (vs @ post)"
  have nb: "CHR ''{'' \<notin> set (m @ ''}}'')" using assms(1) by (auto simp: plainName_def)
  from assms(2,3) obtain us' where r: "CHR ''{'' # m @ ''}}'' = us' @ vs"
    by (cases us) (auto simp: placeholder_Cons)
  from assms(4) obtain v vs' where vs: "vs = v # vs'" by (cases vs) auto
  with p have v: "v = CHR ''{''" by (simp add: placeholder_Cons)
  show False
  proof (cases us')
    case Nil
    with r vs v have "vs' = m @ ''}}''" by simp
    with p vs have "hd (m @ ''}}'') = CHR ''{''" by (cases m) (auto simp: placeholder_Cons)
    with nb show False by (cases m) auto
  next
    case (Cons y ys)
    with r have "m @ ''}}'' = ys @ vs" by simp
    then have "set vs \<subseteq> set (m @ ''}}'')" by (metis set_append sup_ge2)
    with vs v nb show False by auto
  qed
qed

text \<open>
  An occurrence of a plain placeholder that starts before another placeholder
  also ends before it.
\<close>

lemma placeholder_straddle:
  assumes "plainName a" "vs \<noteq> []" "prefix (placeholder a) (vs @ placeholder m @ post)"
  shows "prefix (placeholder a) vs"
proof -
  from prefix_append[of "placeholder a" vs "placeholder m @ post"] assms(3)
  have "prefix (placeholder a) vs \<or>
        (\<exists>w. placeholder a = vs @ w \<and> prefix w (placeholder m @ post))"
    by blast
  then consider "prefix (placeholder a) vs"
    | w where "placeholder a = vs @ w" "prefix w (placeholder m @ post)" "w \<noteq> []"
    by (metis append_Nil2 prefix_order.refl)
  then show ?thesis
  proof cases
    case 1
    then show ?thesis .
  next
    case 2
    from 2(2,3) obtain w' where w: "w = CHR ''{'' # w'"
      by (cases w) (auto simp: placeholder_Cons)
    have nb: "CHR ''{'' \<notin> set (a @ ''}}'')" using assms(1) by (auto simp: plainName_def)
    from assms(2) 2(1) obtain vs' where r: "CHR ''{'' # a @ ''}}'' = vs' @ w"
      by (cases vs) (auto simp: placeholder_Cons)
    have False
    proof (cases vs')
      case Nil
      with r w have w': "w' = a @ ''}}''" by simp
      from 2(2) w have "prefix w' (CHR ''{'' # m @ ''}}'' @ post)"
        by (simp add: placeholder_Cons)
      with w' have "hd (a @ ''}}'') = CHR ''{''" by (cases a) auto
      with nb show False by (cases a) auto
    next
      case (Cons y ys)
      with r have "a @ ''}}'' = ys @ w" by simp
      then have "set w \<subseteq> set (a @ ''}}'')" by (metis set_append sup_ge2)
      with w nb show False by auto
    qed
    then show ?thesis ..
  qed
qed

lemma straddle_free_placeholder:
  "plainName a \<Longrightarrow> straddle_free (placeholder a) pre (placeholder m @ post)"
  unfolding straddle_free_def using placeholder_straddle by blast

lemma ReplaceAll_keeps_other:
  assumes "plainName a" "plainName m" "a \<noteq> m"
  shows "ReplaceAll (pre @ placeholder m @ post) (placeholder a) va =
         ReplaceAll pre (placeholder a) va @ placeholder m @ ReplaceAll post (placeholder a) va"
proof -
  have "ReplaceAll (placeholder m @ post) (placeholder a) va =
        placeholder m @ ReplaceAll post (placeholder a) va"
  proof (rule ReplaceAll_skip[OF placeholder_ne])
    fix us vs assume d: "placeholder m = us @ vs" and ne: "vs \<noteq> []"
    show "\<not> prefix (placeholder a) (vs @ post)"
    proof (cases "us = []")
      case True
      with d assms placeholder_prefix_same[of a m post] show ?thesis by auto
    next
      case False
      from assms(2) d False ne show ?thesis by (rule placeholder_inside)
    qed
  qed
  with ReplaceAll_append[OF placeholder_ne straddle_free_placeholder[OF assms(1)], of pre m post va]
  show ?thesis by simp
qed

lemma ReplaceAll_replaces_own:
  assumes "plainName a"
  shows "ReplaceAll (pre @ placeholder a @ post) (placeholder a) va =
         ReplaceAll pre (placeholder a) va @ va @ ReplaceAll post (placeholder a) va"
  using ReplaceAll_append[OF placeholder_ne straddle_free_placeholder[OF assms], of pre a post va]
    ReplaceAll_hit[OF placeholder_ne, of a post va] by simp

subsection \<open>The loop over the variables\<close>

lemma ReplaceVariables_append:
  "ReplaceVariables s (us @ ws) = ReplaceVariables (ReplaceVariables s us) ws"
  by (induction us arbitrary: s) simp_all

lemma ReplaceVariables_keeps_other:
  "plainName m \<Longrightarrow> \<forall>v\<in>set vars. plainName (Name v) \<and> Name v \<noteq> m \<Longrightarrow>
   ReplaceVariables (pre @ placeholder m @ post) vars =
   ReplaceVariables pre vars @ placeholder m @ ReplaceVariables post vars"
proof (induction vars arbitrary: pre post)
  case Nil
  then show ?case by simp
next
  case (Cons v vars)
  then show ?case by (simp add: ReplaceAll_keeps_other)
qed

lemma ReplaceVariables_no_placeholder:
  "\<forall>v\<in>set vars. \<not> sublist (placeholder (Name v)) s \<Longrightarrow> ReplaceVariables s vars = s"
  by (induction vars) (simp_all add: ReplaceAll_no_match placeholder_ne)

lemma ReplaceVariables_last_value:
  assumes "plainName (Name v)" "\<forall>u\<in>set us. plainName (Name u) \<and> Name u \<noteq> Name v"
  shows "ReplaceVariables (pre @ placeholder (Name v) @ post) (us @ [v]) =
         ReplaceVariables pre (us @ [v]) @ Value v @ ReplaceVariables post (us @ [v])"
  using assms
  by (simp add: ReplaceVariables_append ReplaceVariables_keeps_other ReplaceAll_replaces_own)

text \<open>
  C3, as it holds of the code. For names without brace characters: the pass of a variable
  replaces every occurrence of its placeholder, wherever it stands in the script, by
  the variable's value, provided no earlier variable has the same name (the text
  so produced then goes through the passes of the later variables); a placeholder
  whose name is the name of no variable is left as it is; and, for any names, a
  script in which no placeholder of a variable occurs is returned unchanged.
\<close>

theorem ReplaceVariables_substitution:
  "(plainName (Name v) \<and> (\<forall>u\<in>set us. plainName (Name u) \<and> Name u \<noteq> Name v) \<longrightarrow>
      ReplaceVariables (pre @ placeholder (Name v) @ post) (us @ v # ws) =
      ReplaceVariables
        (ReplaceVariables pre (us @ [v]) @ Value v @ ReplaceVariables post (us @ [v])) ws) \<and>
   (plainName m \<and> (\<forall>u\<in>set vars. plainName (Name u) \<and> Name u \<noteq> m) \<longrightarrow>
      ReplaceVariables (pre1 @ placeholder m @ post1) vars =
      ReplaceVariables pre1 vars @ placeholder m @ ReplaceVariables post1 vars) \<and>
   ((\<forall>u\<in>set vars1. \<not> sublist (placeholder (Name u)) s) \<longrightarrow> ReplaceVariables s vars1 = s)"
proof (intro conjI impI)
  assume h: "plainName (Name v) \<and> (\<forall>u\<in>set us. plainName (Name u) \<and> Name u \<noteq> Name v)"
  have "ReplaceVariables (pre @ placeholder (Name v) @ post) (us @ v # ws) =
        ReplaceVariables (ReplaceVariables (pre @ placeholder (Name v) @ post) (us @ [v])) ws"
    using ReplaceVariables_append[of _ "us @ [v]" ws] by simp
  with h show "ReplaceVariables (pre @ placeholder (Name v) @ post) (us @ v # ws) =
      ReplaceVariables
        (ReplaceVariables pre (us @ [v]) @ Value v @ ReplaceVariables post (us @ [v])) ws"
    by (simp add: ReplaceVariables_last_value)
next
  assume "plainName m \<and> (\<forall>u\<in>set vars. plainName (Name u) \<and> Name u \<noteq> m)"
  then show "ReplaceVariables (pre1 @ placeholder m @ post1) vars =
      ReplaceVariables pre1 vars @ placeholder m @ ReplaceVariables post1 vars"
    by (simp add: ReplaceVariables_keeps_other)
next
  assume "\<forall>u\<in>set vars1. \<not> sublist (placeholder (Name u)) s"
  then show "ReplaceVariables s vars1 = s" by (rule ReplaceVariables_no_placeholder)
qed

theorem ReplaceVariables_substitution_witness:
  "plainName ''HOST'' \<and> plainName ''USER'' \<and> ''USER'' \<noteq> ''HOST'' \<and>
   ReplaceVariables (''ssh {{USER}}@'' @ placeholder ''HOST'' @ '' -p {{PORT}} {{HOST}}'')
     ([\<lparr>Name = ''USER'', Value = ''root''\<rparr>] @ \<lparr>Name = ''HOST'', Value = ''h1''\<rparr> #
      [\<lparr>Name = ''PORT'', Value = ''22''\<rparr>]) = ''ssh root@h1 -p 22 h1'' \<and>
   plainName ''OPT'' \<and> ''USER'' \<noteq> ''OPT'' \<and>
   ReplaceVariables (''{{USER}} '' @ placeholder ''OPT'' @ '' {{USER}}'')
     [\<lparr>Name = ''USER'', Value = ''root''\<rparr>] = ''root {{OPT}} root'' \<and>
   \<not> sublist (placeholder ''USER'') ''date'' \<and>
   ReplaceVariables ''date'' [\<lparr>Name = ''USER'', Value = ''root''\<rparr>] = ''date''"
  using ReplaceVariables_substitution
    [of "\<lparr>Name = ''HOST'', Value = ''h1''\<rparr>" "[\<lparr>Name = ''USER'', Value = ''root''\<rparr>]"
        "''ssh {{USER}}@''" "'' -p {{PORT}} {{HOST}}''" "[\<lparr>Name = ''PORT'', Value = ''22''\<rparr>]"
        "''OPT''" "[\<lparr>Name = ''USER'', Value = ''root''\<rparr>]" "''{{USER}} ''" "'' {{USER}}''"
        "[\<lparr>Name = ''USER'', Value = ''root''\<rparr>]" "''date''"]
  by (simp add: plainName_def placeholder_def sublist_Cons_right)

theorem ReplaceVariables_unmatched_counterexample:
  "''a'' \<noteq> Name \<lparr>Name = ''a}}{{b'', Value = ''X''\<rparr> \<and>
   sublist (placeholder ''a'') ''{{a}}{{b}}'' \<and>
   ReplaceVariables ''{{a}}{{b}}'' [\<lparr>Name = ''a}}{{b'', Value = ''X''\<rparr>] = ''X'' \<and>
   \<not> sublist (placeholder ''a'') ''X'' \<and>
   ''{x}'' \<noteq> Name \<lparr>Name = ''x'', Value = ''1''\<rparr> \<and>
   sublist (placeholder ''{x}'') ''echo ${{{x}}}'' \<and>
   ReplaceVariables ''echo ${{{x}}}'' [\<lparr>Name = ''x'', Value = ''1''\<rparr>] = ''echo ${1}'' \<and>
   \<not> sublist (placeholder ''{x}'') ''echo ${1}''"
  by (simp add: placeholder_def sublist_Cons_right)

text \<open>
  C4, as it holds of the code. Each variable is one left-to-right pass, and the passes run in
  list order: the value that the last pass inserts stands in the output as it is,
  whatever placeholders of its own variable or of earlier variables it contains
  (names without braces, no earlier variable of the same name); a script that
  is exactly one placeholder becomes exactly the value; and the text produced by
  one pass, values included, is the input of the passes of the later variables.
\<close>

theorem ReplaceVariables_single_pass:
  "(plainName (Name v) \<and> (\<forall>u\<in>set us. plainName (Name u) \<and> Name u \<noteq> Name v) \<longrightarrow>
      ReplaceVariables (pre @ placeholder (Name v) @ post) (us @ [v]) =
      ReplaceVariables pre (us @ [v]) @ Value v @ ReplaceVariables post (us @ [v])) \<and>
   ReplaceVariables (placeholder n) [\<lparr>Name = n, Value = val\<rparr>] = val \<and>
   ReplaceVariables s (us @ v # ws) = ReplaceVariables (ReplaceVariables s (us @ [v])) ws"
proof (intro conjI impI)
  assume "plainName (Name v) \<and> (\<forall>u\<in>set us. plainName (Name u) \<and> Name u \<noteq> Name v)"
  then show "ReplaceVariables (pre @ placeholder (Name v) @ post) (us @ [v]) =
      ReplaceVariables pre (us @ [v]) @ Value v @ ReplaceVariables post (us @ [v])"
    by (simp add: ReplaceVariables_last_value)
next
  show "ReplaceVariables (placeholder n) [\<lparr>Name = n, Value = val\<rparr>] = val"
    using ReplaceAll_hit[OF placeholder_ne, of n "[]" val]
    by (simp add: ReplaceAll_Nil placeholder_ne)
next
  show "ReplaceVariables s (us @ v # ws) = ReplaceVariables (ReplaceVariables s (us @ [v])) ws"
    using ReplaceVariables_append[of s "us @ [v]" ws] by simp
qed

theorem ReplaceVariables_single_pass_witness:
  "plainName ''b'' \<and> plainName ''a'' \<and> ''a'' \<noteq> ''b'' \<and>
   ReplaceVariables (''x{{a}} '' @ placeholder ''b'' @ '' y'')
     ([\<lparr>Name = ''a'', Value = ''A''\<rparr>] @ [\<lparr>Name = ''b'', Value = ''{{a}}/{{b}}''\<rparr>]) =
   ''xA {{a}}/{{b}} y''"
  using ReplaceVariables_single_pass
    [of "\<lparr>Name = ''b'', Value = ''{{a}}/{{b}}''\<rparr>" "[\<lparr>Name = ''a'', Value = ''A''\<rparr>]"
        "''x{{a}} ''" "'' y''" "''b''" "''B''" "[]" "[]"]
  by (simp add: plainName_def placeholder_def)

theorem ReplaceVariables_rescan_counterexample:
  "sublist (placeholder ''HOST'') ''http://{{HOST}}/'' \<and>
   ReplaceVariables ''curl {{URL}}''
     [\<lparr>Name = ''URL'', Value = ''http://{{HOST}}/''\<rparr>, \<lparr>Name = ''HOST'', Value = ''h1''\<rparr>] =
   ''curl http://h1/'' \<and>
   \<not> sublist (placeholder ''HOST'') ''curl http://h1/''"
  by (simp add: placeholder_def sublist_Cons_right)


section \<open>Properties of \<^verbatim>\<open>NewSSHClient\<close>\<close>

text \<open>The three rounds of the retry loop, written out.\<close>

lemma dialLoop_three:
  "dialLoop env h c 3 1 ((None, None), tr) =
     (case ssh_Dial env 1 h c of
        Inr cl \<Rightarrow> ((Some cl, None), tr @ [Dial 1 h c])
      | Inl e1 \<Rightarrow>
          (case ssh_Dial env 2 h c of
             Inr cl \<Rightarrow>
               ((Some cl, None),
                tr @ [Dial 1 h c,
                      Log ''Failed to dial: %s with username %s, attempt %d/%d, error: %s'',
                      Sleep 2, Dial 2 h c])
           | Inl e2 \<Rightarrow>
               (case ssh_Dial env 3 h c of
                  Inr cl \<Rightarrow>
                    ((Some cl, None),
                     tr @ [Dial 1 h c,
                           Log ''Failed to dial: %s with username %s, attempt %d/%d, error: %s'',
                           Sleep 2, Dial 2 h c,
                           Log ''Failed to dial: %s with username %s, attempt %d/%d, error: %s'',
                           Sleep 2, Dial 3 h c])
                | Inl e3 \<Rightarrow>
                    ((None, Some e3),
                     tr @ [Dial 1 h c,
                           Log ''Failed to dial: %s with username %s, attempt %d/%d, error: %s'',
                           Sleep 2, Dial 2 h c,
                           Log ''Failed to dial: %s with username %s, attempt %d/%d, error: %s'',
                           Sleep 2, Dial 3 h c,
                           Log ''Failed to dial: %s with username %s, attempt %d/%d, error: %s'']))))"
  by (simp add: dialLoop.simps numeral_2_eq_2 numeral_3_eq_3 split: sum.splits)

lemma dialConfigs_append: "dialConfigs (xs @ ys) = dialConfigs xs @ dialConfigs ys"
  by (induction xs rule: dialConfigs.induct) simp_all

lemma dialConfigs_authSwitch:
  "authSwitch env kc = Some (auth, tr) \<Longrightarrow> dialConfigs tr = []"
  by (auto simp: authSwitch_def Let_def split: if_splits prod.splits option.splits sum.splits)

text \<open>
  The loop started by \<^verbatim>\<open>NewSSHClient\<close>: its result follows the outcomes of the
  attempts, and every attempt carries the same configuration.
\<close>

lemma dialLoop_result:
  assumes "\<forall>n. ssh_Dial env n h c = d n"
  shows "fst (dialLoop env h c 3 1 ((None, None), tr)) = spec_connect d"
    and "dialConfigs (snd (dialLoop env h c 3 1 ((None, None), tr))) =
         dialConfigs tr @ replicate (spec_attempts d) c"
  unfolding dialLoop_three spec_connect_def spec_attempts_def
  using assms
  by (simp_all add: dialConfigs_append numeral_2_eq_2 numeral_3_eq_3 split: sum.splits)

text \<open>What \<^verbatim>\<open>NewSSHClient\<close> does once the checks have passed and a method is chosen.\<close>

lemma NewSSHClient_dials:
  assumes "json_Unmarshal env data = Inr kc" "passesChecks env data"
    and "authSwitch env kc = Some (auth, tr1)"
  shows "\<exists>h cb tr0. dialConfigs tr0 = [] \<and>
           NewSSHClient env data =
             (case dialLoop env h \<lparr>User = Username kc, Auth = auth, HostKeyCallback = cb\<rparr> 3 1
                     ((None, None), tr0 @ tr1) of
                ((client, err), tr2) \<Rightarrow>
                  (case err of
                     Some e \<Rightarrow>
                       ((None, Some e),
                        tr2 @ [Log ''All %d attempts to connect to %s failed.\<newline>''])
                   | None \<Rightarrow> ((client, None), tr2)))"
proof (cases "KnownHosts kc = []")
  case True
  show ?thesis
    apply (rule exI[of _ "RemoteHostIP kc @ '':'' @ (if RemoteHostPort kc = [] then ''22'' else RemoteHostPort kc)"])
    apply (rule exI[of _ InsecureIgnoreHostKey])
    apply (rule exI[of _ "if RemoteHostPort kc = []
                        then [Log ''Remote host port key not found in the data, using default port 22'']
                        else []"])
    using assms True
    by (simp add: NewSSHClient_def passesChecks_def Let_def split: prod.splits option.splits)
next
  case False
  with assms(1,2) obtain cb where cb: "knownhosts_New env (KnownHosts kc) = Inr cb"
    by (auto simp: passesChecks_def split: sum.splits)
  show ?thesis
    apply (rule exI[of _ "RemoteHostIP kc @ '':'' @ (if RemoteHostPort kc = [] then ''22'' else RemoteHostPort kc)"])
    apply (rule exI[of _ cb])
    apply (rule exI[of _ "if RemoteHostPort kc = []
                        then [Log ''Remote host port key not found in the data, using default port 22'']
                        else []"])
    using assms False cb
    by (simp add: NewSSHClient_def passesChecks_def Let_def split: prod.splits option.splits)
qed

lemma dialLoop_keeps_events:
  "set tr \<subseteq> set (snd (dialLoop env h c 3 1 ((None, None), tr)))"
  unfolding dialLoop_three by (auto split: sum.splits)

lemma spec_connect_shape:
  "(\<exists>cl. spec_connect d = (Some cl, None)) \<or> (\<exists>e. spec_connect d = (None, Some e))"
  by (simp add: spec_connect_def split: sum.splits)

lemma spec_attempts_bounds: "1 \<le> spec_attempts d \<and> spec_attempts d \<le> 3"
  by (simp add: spec_attempts_def split: sum.splits)

lemma NewSSHClient_shape:
  assumes "json_Unmarshal env data = Inr kc" "passesChecks env data"
    and "authSwitch env kc = Some (auth, tr1)"
  shows "\<exists>h cb. fst (NewSSHClient env data) =
                  spec_connect (\<lambda>n. ssh_Dial env n h
                     \<lparr>User = Username kc, Auth = auth, HostKeyCallback = cb\<rparr>) \<and>
                dialConfigs (snd (NewSSHClient env data)) =
                  replicate
                    (spec_attempts (\<lambda>n. ssh_Dial env n h
                       \<lparr>User = Username kc, Auth = auth, HostKeyCallback = cb\<rparr>))
                    \<lparr>User = Username kc, Auth = auth, HostKeyCallback = cb\<rparr> \<and>
                set tr1 \<subseteq> set (snd (NewSSHClient env data))"
proof -
  from NewSSHClient_dials[OF assms] obtain h cb tr0 where
    tr0: "dialConfigs tr0 = []" and
    eq: "NewSSHClient env data =
             (case dialLoop env h \<lparr>User = Username kc, Auth = auth, HostKeyCallback = cb\<rparr> 3 1
                     ((None, None), tr0 @ tr1) of
                ((client, err), tr2) \<Rightarrow>
                  (case err of
                     Some e \<Rightarrow>
                       ((None, Some e),
                        tr2 @ [Log ''All %d attempts to connect to %s failed.\<newline>''])
                   | None \<Rightarrow> ((client, None), tr2)))"
    by blast
  let ?c = "\<lparr>User = Username kc, Auth = auth, HostKeyCallback = cb\<rparr>"
  let ?d = "\<lambda>n. ssh_Dial env n h ?c"
  let ?r = "dialLoop env h ?c 3 1 ((None, None), tr0 @ tr1)"
  have a: "fst ?r = spec_connect ?d"
    and b: "dialConfigs (snd ?r) = dialConfigs (tr0 @ tr1) @ replicate (spec_attempts ?d) ?c"
    using dialLoop_result[of env h ?c ?d "tr0 @ tr1"] by simp_all
  have k: "set (tr0 @ tr1) \<subseteq> set (snd ?r)" by (rule dialLoop_keeps_events)
  have dc: "dialConfigs (tr0 @ tr1) = []"
    using tr0 dialConfigs_authSwitch[OF assms(3)] by (simp add: dialConfigs_append)
  obtain client err tr2 where r: "?r = ((client, err), tr2)" by (metis prod.exhaust)
  from eq r have eq2: "NewSSHClient env data =
      (case err of
         Some e \<Rightarrow> ((None, Some e), tr2 @ [Log ''All %d attempts to connect to %s failed.\<newline>''])
       | None \<Rightarrow> ((client, None), tr2))"
    by simp
  from a r have sc: "spec_connect ?d = (client, err)" by simp
  from b r dc have b2: "dialConfigs tr2 = replicate (spec_attempts ?d) ?c" by simp
  from k r have k2: "set tr1 \<subseteq> set tr2" by simp
  from spec_connect_shape[of ?d] sc
  have sh: "(\<exists>cl. client = Some cl \<and> err = None) \<or> (\<exists>e. client = None \<and> err = Some e)"
    by auto
  have 1: "fst (NewSSHClient env data) = spec_connect ?d"
    using sh
  proof
    assume "\<exists>cl. client = Some cl \<and> err = None"
    with eq2 sc show ?thesis by auto
  next
    assume "\<exists>e. client = None \<and> err = Some e"
    with eq2 sc show ?thesis by auto
  qed
  have 2: "dialConfigs (snd (NewSSHClient env data)) = replicate (spec_attempts ?d) ?c"
    using eq2 b2 by (cases err) (simp_all add: dialConfigs_append)
  have 3: "set tr1 \<subseteq> set (snd (NewSSHClient env data))"
    using eq2 k2 by (cases err) auto
  from 1 2 3 show ?thesis by blast
qed

text \<open>Before the checks have passed, and without a method, nothing is dialled.\<close>

lemma NewSSHClient_no_dial:
  assumes "json_Unmarshal env data = Inr kc"
    and "\<not> passesChecks env data \<or> authSwitch env kc = None"
  shows "dialConfigs (snd (NewSSHClient env data)) = []"
    and "fst (fst (NewSSHClient env data)) = None"
    and "snd (fst (NewSSHClient env data)) \<noteq> None"
  using assms
  by (auto simp: NewSSHClient_def passesChecks_def Let_def split: sum.splits if_splits)

lemma authSwitch_None: "authSwitch env kc = None \<longleftrightarrow> PrivateKey kc = [] \<and> Password kc = []"
  by (auto simp: authSwitch_def Let_def split: prod.splits)

lemma authSwitch_key:
  "PrivateKey kc \<noteq> [] \<Longrightarrow>
   \<exists>tr. authSwitch env kc = Some ([PublicKeys (parsedSigner env kc)], tr)"
  by (auto simp: authSwitch_def parsedSigner_def Let_def split: prod.splits sum.splits)

lemma authSwitch_password:
  "PrivateKey kc = [] \<Longrightarrow> Password kc \<noteq> [] \<Longrightarrow>
   authSwitch env kc = Some ([PasswordAuth (Password kc)], [])"
  by (simp add: authSwitch_def)

text \<open>
  C5. For a payload that passes the checks and names a method, the result is the
  connection of the first successful attempt, or the error of the third attempt
  when all three fail, and there are as many attempts as that takes, never more
  than three. Here \<open>d n\<close> is the outcome of the \<open>n\<close>-th call of \<^verbatim>\<open>ssh.Dial\<close>.
\<close>

theorem NewSSHClient_retries:
  assumes "passesChecks env data" "json_Unmarshal env data = Inr kc"
    and "PrivateKey kc \<noteq> [] \<or> Password kc \<noteq> []"
    and "\<forall>n h c. ssh_Dial env n h c = d n"
  shows "fst (NewSSHClient env data) = spec_connect d \<and>
         length (dialConfigs (snd (NewSSHClient env data))) = spec_attempts d \<and>
         length (dialConfigs (snd (NewSSHClient env data))) \<le> 3"
proof -
  from assms(3) obtain auth tr1 where au: "authSwitch env kc = Some (auth, tr1)"
    using authSwitch_None[of env kc] by (cases "authSwitch env kc") auto
  from NewSSHClient_shape[OF assms(2) assms(1) au] assms(4)
  have "fst (NewSSHClient env data) = spec_connect d"
    and "length (dialConfigs (snd (NewSSHClient env data))) = spec_attempts d"
    by auto
  with spec_attempts_bounds[of d] show ?thesis by simp
qed

theorem NewSSHClient_retries_witness:
  "passesChecks
     (sampleEnv\<lparr>ssh_Dial := \<lambda>n h c. if n = 3 then Inr (Client 3) else Inl (Err ''refused'')\<rparr>)
     ''cfg'' \<and>
   PrivateKey sampleConfig = ''a2V5'' \<and>
   fst (NewSSHClient
     (sampleEnv\<lparr>ssh_Dial := \<lambda>n h c. if n = 3 then Inr (Client 3) else Inl (Err ''refused'')\<rparr>)
     ''cfg'') = (Some (Client 3), None) \<and>
   length (dialConfigs (snd (NewSSHClient
     (sampleEnv\<lparr>ssh_Dial := \<lambda>n h c. if n = 3 then Inr (Client 3) else Inl (Err ''refused'')\<rparr>)
     ''cfg''))) = 3"
proof -
  let ?env = "sampleEnv\<lparr>ssh_Dial := \<lambda>n h c. if n = 3 then Inr (Client 3) else Inl (Err ''refused'')\<rparr>"
  have p: "passesChecks ?env ''cfg''"
    by (simp add: passesChecks_def sampleEnv_def sampleConfig_def isValidIPv4_def
        ipv4Regex_MatchString_def urlRegex_MatchString_def isDigit_def)
  have j: "json_Unmarshal ?env ''cfg'' = Inr sampleConfig" by (simp add: sampleEnv_def)
  have k: "PrivateKey sampleConfig \<noteq> [] \<or> Password sampleConfig \<noteq> []"
    by (simp add: sampleConfig_def)
  have d: "\<forall>n h c. ssh_Dial ?env n h c =
             (\<lambda>n. if n = 3 then Inr (Client 3) else Inl (Err ''refused'')) n"
    by simp
  from NewSSHClient_retries[OF p j k d] p show ?thesis
    by (simp add: spec_connect_def spec_attempts_def sampleConfig_def)
qed


lemma sample_passesChecks: "passesChecks sampleEnv data"
  by (simp add: passesChecks_def sampleEnv_def sampleConfig_def isValidIPv4_def
      ipv4Regex_MatchString_def urlRegex_MatchString_def isDigit_def)

lemma passesChecks_fields:
  "json_Unmarshal env' data = Inr kc' \<Longrightarrow> json_Unmarshal env data = Inr kc \<Longrightarrow>
   knownhosts_New env' = knownhosts_New env \<Longrightarrow>
   Username kc' = Username kc \<Longrightarrow> RemoteHostIP kc' = RemoteHostIP kc \<Longrightarrow>
   KnownHosts kc' = KnownHosts kc \<Longrightarrow>
   passesChecks env' data = passesChecks env data"
  by (simp add: passesChecks_def)

text \<open>
  C6, as it holds of the code. With neither a password nor a private key, \<^verbatim>\<open>NewSSHClient\<close>
  returns an error and no client and attempts no connection (after the other
  checks have passed, the error is the one about the missing key or password).
  With both present and the other checks passed it does attempt a connection.
  A connection is attempted only when at least one of the two is present.
\<close>

theorem NewSSHClient_auth_required:
  assumes "json_Unmarshal env data = Inr kc"
  shows "(PrivateKey kc = [] \<and> Password kc = [] \<longrightarrow>
            fst (fst (NewSSHClient env data)) = None \<and>
            snd (fst (NewSSHClient env data)) \<noteq> None \<and>
            dialConfigs (snd (NewSSHClient env data)) = [] \<and>
            (passesChecks env data \<longrightarrow>
               snd (fst (NewSSHClient env data)) =
               Some (Err ''Private Key or Password key not found in the data.''))) \<and>
         (PrivateKey kc \<noteq> [] \<and> Password kc \<noteq> [] \<and> passesChecks env data \<longrightarrow>
            dialConfigs (snd (NewSSHClient env data)) \<noteq> []) \<and>
         (dialConfigs (snd (NewSSHClient env data)) \<noteq> [] \<longrightarrow>
            PrivateKey kc \<noteq> [] \<or> Password kc \<noteq> [])"
proof (intro conjI impI)
  assume n: "PrivateKey kc = [] \<and> Password kc = []"
  then have au: "authSwitch env kc = None" by (simp add: authSwitch_None)
  with assms show "fst (fst (NewSSHClient env data)) = None"
    and "snd (fst (NewSSHClient env data)) \<noteq> None"
    and "dialConfigs (snd (NewSSHClient env data)) = []"
    using NewSSHClient_no_dial[of env data kc] by simp_all
  assume "passesChecks env data"
  with assms au show "snd (fst (NewSSHClient env data)) =
      Some (Err ''Private Key or Password key not found in the data.'')"
    by (auto simp: NewSSHClient_def passesChecks_def Let_def split: sum.splits if_splits)
next
  assume b: "PrivateKey kc \<noteq> [] \<and> Password kc \<noteq> [] \<and> passesChecks env data"
  then obtain tr where au: "authSwitch env kc = Some ([PublicKeys (parsedSigner env kc)], tr)"
    using authSwitch_key[of kc env] by blast
  from b have p: "passesChecks env data" by simp
  from NewSSHClient_shape[OF assms p au] spec_attempts_bounds
  show "dialConfigs (snd (NewSSHClient env data)) \<noteq> []"
    by (metis One_nat_def Suc_le_D replicate_empty nat.distinct(1))
next
  assume d: "dialConfigs (snd (NewSSHClient env data)) \<noteq> []"
  show "PrivateKey kc \<noteq> [] \<or> Password kc \<noteq> []"
  proof (rule ccontr)
    assume "\<not> (PrivateKey kc \<noteq> [] \<or> Password kc \<noteq> [])"
    then have "authSwitch env kc = None" by (simp add: authSwitch_None)
    with assms d NewSSHClient_no_dial(1)[of env data kc] show False by simp
  qed
qed

theorem NewSSHClient_auth_required_witness:
  "json_Unmarshal
     (sampleEnv\<lparr>json_Unmarshal := \<lambda>d. Inr (sampleConfig\<lparr>Password := [], PrivateKey := []\<rparr>)\<rparr>)
     ''cfg'' = Inr (sampleConfig\<lparr>Password := [], PrivateKey := []\<rparr>) \<and>
   passesChecks
     (sampleEnv\<lparr>json_Unmarshal := \<lambda>d. Inr (sampleConfig\<lparr>Password := [], PrivateKey := []\<rparr>)\<rparr>)
     ''cfg'' \<and>
   NewSSHClient
     (sampleEnv\<lparr>json_Unmarshal := \<lambda>d. Inr (sampleConfig\<lparr>Password := [], PrivateKey := []\<rparr>)\<rparr>)
     ''cfg'' =
   ((None, Some (Err ''Private Key or Password key not found in the data.'')), []) \<and>
   json_Unmarshal sampleEnv ''cfg'' = Inr sampleConfig \<and>
   passesChecks sampleEnv ''cfg'' \<and>
   PrivateKey sampleConfig = ''a2V5'' \<and> Password sampleConfig = ''password'' \<and>
   dialConfigs (snd (NewSSHClient sampleEnv ''cfg'')) \<noteq> []"
proof -
  let ?kc = "sampleConfig\<lparr>Password := [], PrivateKey := []\<rparr>"
  let ?env = "sampleEnv\<lparr>json_Unmarshal := \<lambda>d. Inr ?kc\<rparr>"
  have j: "json_Unmarshal ?env ''cfg'' = Inr ?kc" by simp
  have p: "passesChecks ?env ''cfg''"
    using sample_passesChecks[of "''cfg''"]
      passesChecks_fields[of ?env "''cfg''" ?kc sampleEnv sampleConfig]
    by (simp add: sampleEnv_def)
  have j2: "json_Unmarshal sampleEnv ''cfg'' = Inr sampleConfig" by (simp add: sampleEnv_def)
  have t: "snd (NewSSHClient ?env ''cfg'') = []"
    by (simp add: NewSSHClient_def sampleEnv_def sampleConfig_def authSwitch_def Let_def
        isValidIPv4_def ipv4Regex_MatchString_def urlRegex_MatchString_def isDigit_def)
  from NewSSHClient_auth_required[OF j] p t
  have a: "NewSSHClient ?env ''cfg'' =
      ((None, Some (Err ''Private Key or Password key not found in the data.'')), [])"
    by (simp add: prod_eq_iff)
  from NewSSHClient_auth_required[OF j2] sample_passesChecks[of "''cfg''"]
  have b: "dialConfigs (snd (NewSSHClient sampleEnv ''cfg'')) \<noteq> []"
    by (simp add: sampleConfig_def)
  from j p a j2 b sample_passesChecks[of "''cfg''"] show ?thesis
    by (simp add: sampleConfig_def)
qed

theorem NewSSHClient_both_methods_counterexample:
  "json_Unmarshal sampleEnv ''cfg'' = Inr sampleConfig \<and>
   PrivateKey sampleConfig = ''a2V5'' \<and> Password sampleConfig = ''password'' \<and>
   NewSSHClient sampleEnv ''cfg'' =
     ((Some (Client 1), None),
      [Dial 1 ''10.29.30.5:22''
         \<lparr>User = ''ubuntu'', Auth = [PublicKeys (Some (Signer ''key''))],
          HostKeyCallback = InsecureIgnoreHostKey\<rparr>])"
  by (simp add: NewSSHClient_def sampleEnv_def sampleConfig_def authSwitch_def Let_def
      isValidIPv4_def ipv4Regex_MatchString_def urlRegex_MatchString_def isDigit_def
      dialLoop.simps)

lemma NewSSHClient_password_ignored:
  assumes "json_Unmarshal env data = Inr kc" "PrivateKey kc \<noteq> []"
  shows "NewSSHClient (env\<lparr>json_Unmarshal := \<lambda>x. Inr (kc\<lparr>Password := p\<rparr>)\<rparr>) data =
         NewSSHClient env data"
proof -
  have au: "authSwitch (env\<lparr>json_Unmarshal := \<lambda>x. Inr (kc\<lparr>Password := p\<rparr>)\<rparr>) (kc\<lparr>Password := p\<rparr>) =
            authSwitch env kc"
    using assms(2) by (simp add: authSwitch_def)
  show ?thesis
    unfolding NewSSHClient_def dialLoop_three au
    using assms by (simp add: Let_def au cong: sum.case_cong option.case_cong)
qed

lemma authSwitch_logs:
  assumes "PrivateKey kc \<noteq> []" "authSwitch env kc = Some (auth, tr)"
  shows "snd (base64_DecodeString env (PrivateKey kc)) = Some e \<Longrightarrow>
           LogError e ''Error decoding base64 private key'' \<in> set tr"
    and "ssh_ParsePrivateKey env (fst (base64_DecodeString env (PrivateKey kc))) = Inl e' \<Longrightarrow>
           LogError e' ''Failed to parse private key'' \<in> set tr"
  using assms by (auto simp: authSwitch_def Let_def split: prod.splits)

text \<open>
  C9. With both a password and a private key in the payload, every connection
  attempt is configured with exactly the public-key method, built from the signer
  that the parsed key gives; after the other checks there is such an attempt; and
  the result and the events are the same whatever the password is. The password
  method occurs in an attempt only when the private key is empty and the password
  is not.
\<close>

theorem NewSSHClient_private_key_first:
  assumes "json_Unmarshal env data = Inr kc"
  shows "(PrivateKey kc \<noteq> [] \<and> Password kc \<noteq> [] \<longrightarrow>
            list_all (\<lambda>c. Auth c = [PublicKeys (parsedSigner env kc)])
              (dialConfigs (snd (NewSSHClient env data))) \<and>
            (passesChecks env data \<longrightarrow> dialConfigs (snd (NewSSHClient env data)) \<noteq> []) \<and>
            NewSSHClient (env\<lparr>json_Unmarshal := \<lambda>x. Inr (kc\<lparr>Password := p\<rparr>)\<rparr>) data =
            NewSSHClient env data) \<and>
         (\<forall>c\<in>set (dialConfigs (snd (NewSSHClient env data))).
            PasswordAuth q \<in> set (Auth c) \<longrightarrow>
            PrivateKey kc = [] \<and> Password kc \<noteq> [] \<and> Auth c = [PasswordAuth (Password kc)])"
proof -
  have key: "list_all (\<lambda>c. Auth c = [PublicKeys (parsedSigner env kc)])
               (dialConfigs (snd (NewSSHClient env data))) \<and>
             (passesChecks env data \<longrightarrow> dialConfigs (snd (NewSSHClient env data)) \<noteq> [])"
    if k: "PrivateKey kc \<noteq> []"
  proof (cases "passesChecks env data")
    case True
    from k obtain tr where au: "authSwitch env kc = Some ([PublicKeys (parsedSigner env kc)], tr)"
      using authSwitch_key[of kc env] by blast
    from NewSSHClient_shape[OF assms True au] obtain n c where
      dc: "dialConfigs (snd (NewSSHClient env data)) = replicate n c"
      and c: "Auth c = [PublicKeys (parsedSigner env kc)]" and n: "1 \<le> n"
      using spec_attempts_bounds by (metis ClientConfig.select_convs(2))
    from dc c n show ?thesis by (cases n) (simp_all add: list_all_iff)
  next
    case False
    with assms NewSSHClient_no_dial(1)[of env data kc] show ?thesis by simp
  qed
  have pw: "PrivateKey kc = [] \<and> Password kc \<noteq> [] \<and> Auth c = [PasswordAuth (Password kc)]"
    if c: "c \<in> set (dialConfigs (snd (NewSSHClient env data)))" and q: "PasswordAuth q \<in> set (Auth c)"
    for c
  proof -
    from c have ne: "dialConfigs (snd (NewSSHClient env data)) \<noteq> []" by auto
    have p: "passesChecks env data"
    proof (rule ccontr)
      assume "\<not> passesChecks env data"
      with assms ne NewSSHClient_no_dial(1)[of env data kc] show False by simp
    qed
    have au: "authSwitch env kc \<noteq> None"
    proof
      assume "authSwitch env kc = None"
      with assms ne NewSSHClient_no_dial(1)[of env data kc] show False by simp
    qed
    show ?thesis
    proof (cases "PrivateKey kc = []")
      case True
      with au have pn: "Password kc \<noteq> []" by (simp add: authSwitch_None)
      from NewSSHClient_shape[OF assms p authSwitch_password[OF True pn]] obtain n c' where
        "dialConfigs (snd (NewSSHClient env data)) = replicate n c'"
        and "Auth c' = [PasswordAuth (Password kc)]"
        by (metis ClientConfig.select_convs(2))
      with c True pn show ?thesis by auto
    next
      case False
      with key c have "Auth c = [PublicKeys (parsedSigner env kc)]" by (auto simp: list_all_iff)
      with q show ?thesis by simp
    qed
  qed
  from key pw NewSSHClient_password_ignored[OF assms] show ?thesis by blast
qed

theorem NewSSHClient_private_key_first_witness:
  "json_Unmarshal sampleEnv ''cfg'' = Inr sampleConfig \<and>
   PrivateKey sampleConfig = ''a2V5'' \<and> Password sampleConfig = ''password'' \<and>
   passesChecks sampleEnv ''cfg'' \<and>
   dialConfigs (snd (NewSSHClient sampleEnv ''cfg'')) \<noteq> [] \<and>
   list_all (\<lambda>c. Auth c = [PublicKeys (Some (Signer ''key''))])
     (dialConfigs (snd (NewSSHClient sampleEnv ''cfg''))) \<and>
   NewSSHClient (sampleEnv\<lparr>json_Unmarshal := \<lambda>x. Inr (sampleConfig\<lparr>Password := ''other''\<rparr>)\<rparr>) ''cfg'' =
   NewSSHClient sampleEnv ''cfg''"
proof -
  have j: "json_Unmarshal sampleEnv ''cfg'' = Inr sampleConfig" by (simp add: sampleEnv_def)
  have s: "parsedSigner sampleEnv sampleConfig = Some (Signer ''key'')"
    by (simp add: parsedSigner_def sampleEnv_def)
  from NewSSHClient_private_key_first[OF j, of "''other''"] sample_passesChecks[of "''cfg''"] j s
  show ?thesis by (simp add: sampleConfig_def)
qed

text \<open>
  C10. When the payload has passed the earlier checks and its private key does
  not decode or does not parse, \<^verbatim>\<open>NewSSHClient\<close> returns no error of its own for
  that: each failure is logged, the public-key method is built from what the
  parser returned, the retry loop is entered, and the result is the result of
  the connection attempts.
\<close>

theorem NewSSHClient_bad_key_proceeds:
  assumes "passesChecks env data" "json_Unmarshal env data = Inr kc" "PrivateKey kc \<noteq> []"
    and "snd (base64_DecodeString env (PrivateKey kc)) \<noteq> None \<or> parsedSigner env kc = None"
    and "\<forall>n h c. ssh_Dial env n h c = d n"
  shows "fst (NewSSHClient env data) = spec_connect d \<and>
         map Auth (dialConfigs (snd (NewSSHClient env data))) =
           replicate (spec_attempts d) [PublicKeys (parsedSigner env kc)] \<and>
         1 \<le> spec_attempts d \<and>
         (\<forall>e. snd (base64_DecodeString env (PrivateKey kc)) = Some e \<longrightarrow>
              LogError e ''Error decoding base64 private key'' \<in> set (snd (NewSSHClient env data))) \<and>
         (\<forall>e. ssh_ParsePrivateKey env (fst (base64_DecodeString env (PrivateKey kc))) = Inl e \<longrightarrow>
              LogError e ''Failed to parse private key'' \<in> set (snd (NewSSHClient env data)))"
proof -
  from assms(3) obtain tr where au: "authSwitch env kc = Some ([PublicKeys (parsedSigner env kc)], tr)"
    using authSwitch_key[of kc env] by blast
  from NewSSHClient_shape[OF assms(2) assms(1) au] assms(5)
  have r: "fst (NewSSHClient env data) = spec_connect d"
    and dc: "map Auth (dialConfigs (snd (NewSSHClient env data))) =
             replicate (spec_attempts d) [PublicKeys (parsedSigner env kc)]"
    and sub: "set tr \<subseteq> set (snd (NewSSHClient env data))"
    by auto
  from authSwitch_logs[OF assms(3) au] sub
  have l1: "\<forall>e. snd (base64_DecodeString env (PrivateKey kc)) = Some e \<longrightarrow>
              LogError e ''Error decoding base64 private key'' \<in> set (snd (NewSSHClient env data))"
    and l2: "\<forall>e. ssh_ParsePrivateKey env (fst (base64_DecodeString env (PrivateKey kc))) = Inl e \<longrightarrow>
              LogError e ''Failed to parse private key'' \<in> set (snd (NewSSHClient env data))"
    by blast+
  from r dc l1 l2 spec_attempts_bounds[of d] show ?thesis by simp
qed

theorem NewSSHClient_bad_key_proceeds_witness:
  "passesChecks
     (sampleEnv\<lparr>base64_DecodeString := \<lambda>s. ([], Some (Err ''illegal base64 data'')),
                ssh_ParsePrivateKey := \<lambda>b. Inl (Err ''ssh: no key found''),
                ssh_Dial := \<lambda>n h c. Inl (Err ''handshake failed'')\<rparr>) ''cfg'' \<and>
   PrivateKey sampleConfig = ''a2V5'' \<and>
   fst (NewSSHClient
     (sampleEnv\<lparr>base64_DecodeString := \<lambda>s. ([], Some (Err ''illegal base64 data'')),
                ssh_ParsePrivateKey := \<lambda>b. Inl (Err ''ssh: no key found''),
                ssh_Dial := \<lambda>n h c. Inl (Err ''handshake failed'')\<rparr>) ''cfg'') =
     (None, Some (Err ''handshake failed'')) \<and>
   map Auth (dialConfigs (snd (NewSSHClient
     (sampleEnv\<lparr>base64_DecodeString := \<lambda>s. ([], Some (Err ''illegal base64 data'')),
                ssh_ParsePrivateKey := \<lambda>b. Inl (Err ''ssh: no key found''),
                ssh_Dial := \<lambda>n h c. Inl (Err ''handshake failed'')\<rparr>) ''cfg''))) =
     [[PublicKeys None], [PublicKeys None], [PublicKeys None]] \<and>
   LogError (Err ''illegal base64 data'') ''Error decoding base64 private key'' \<in> set (snd (NewSSHClient
     (sampleEnv\<lparr>base64_DecodeString := \<lambda>s. ([], Some (Err ''illegal base64 data'')),
                ssh_ParsePrivateKey := \<lambda>b. Inl (Err ''ssh: no key found''),
                ssh_Dial := \<lambda>n h c. Inl (Err ''handshake failed'')\<rparr>) ''cfg'')) \<and>
   LogError (Err ''ssh: no key found'') ''Failed to parse private key'' \<in> set (snd (NewSSHClient
     (sampleEnv\<lparr>base64_DecodeString := \<lambda>s. ([], Some (Err ''illegal base64 data'')),
                ssh_ParsePrivateKey := \<lambda>b. Inl (Err ''ssh: no key found''),
                ssh_Dial := \<lambda>n h c. Inl (Err ''handshake failed'')\<rparr>) ''cfg''))"
proof -
  let ?env = "sampleEnv\<lparr>base64_DecodeString := \<lambda>s. ([], Some (Err ''illegal base64 data'')),
                ssh_ParsePrivateKey := \<lambda>b. Inl (Err ''ssh: no key found''),
                ssh_Dial := \<lambda>n h c. Inl (Err ''handshake failed'')\<rparr>"
  have j: "json_Unmarshal ?env ''cfg'' = Inr sampleConfig" by (simp add: sampleEnv_def)
  have j0: "json_Unmarshal sampleEnv ''cfg'' = Inr sampleConfig" by (simp add: sampleEnv_def)
  have p: "passesChecks ?env ''cfg''"
    using sample_passesChecks[of "''cfg''"]
      passesChecks_fields[OF j j0, of ] by simp
  have k: "PrivateKey sampleConfig \<noteq> []" by (simp add: sampleConfig_def)
  have b: "snd (base64_DecodeString ?env (PrivateKey sampleConfig)) \<noteq> None \<or>
           parsedSigner ?env sampleConfig = None"
    by (simp add: parsedSigner_def)
  have d: "\<forall>n h c. ssh_Dial ?env n h c = (\<lambda>n. Inl (Err ''handshake failed'')) n" by simp
  have s: "parsedSigner ?env sampleConfig = None" by (simp add: parsedSigner_def)
  from NewSSHClient_bad_key_proceeds[OF p j k b d] p s show ?thesis
    by (simp add: spec_connect_def spec_attempts_def sampleConfig_def numeral_3_eq_3)
qed


section \<open>Properties of \<^verbatim>\<open>ExecuteScript\<close> and \<^verbatim>\<open>Observe\<close>\<close>

lemma sendFile_staged:
  "staged env sc vars \<Longrightarrow>
   sendFile env client (ReplaceVariables sc vars) (stagedFile env) =
     (None,
      [NewSession, SftpNewClient, SftpCreate (stagedFile env),
       SftpWrite (stagedFile env) (ReplaceVariables sc vars),
       SftpClose (stagedFile env), CloseSession, CloseSession])"
  by (simp add: staged_def sendFile_def)


text \<open>
  A script whose run returns an error: the standard output is not returned, and the
  events end with the close of the command session; nothing is run after it.
\<close>

lemma ExecuteScript_failed_run:
  assumes "staged env sc vars" "scriptRun env su = (out, er, ending)"
    and "session_Run_err ending = Some e"
  shows "ExecuteScript env client sc vars su =
           (([], er, Some e),
            [NewSession, SftpNewClient, SftpCreate (stagedFile env),
             SftpWrite (stagedFile env) (ReplaceVariables sc vars),
             SftpClose (stagedFile env), CloseSession, CloseSession,
             NewSession, Run (scriptCommand (stagedFile env) su), CloseSession])"
  using assms sendFile_staged[OF assms(1), of client]
  by (auto simp: ExecuteScript_def Let_def staged_def scriptRun_def stagedFile_def
      split: prod.splits option.splits)

lemma sample_stagedFile:
  assumes "rand_Read env = (\<lambda>n. replicate n 0)"
  shows "stagedFile env = ''/tmp/tmp.0000000000000000''"
proof -
  have "replicate 8 (0::8 word) = [0, 0, 0, 0, 0, 0, 0, 0]" by (simp add: eval_nat_numeral)
  with assms have "rand_Read env 8 = [0, 0, 0, 0, 0, 0, 0, 0]" by simp
  then show ?thesis by (simp add: stagedFile_def randomFileName_def hexDigit_def)
qed

text \<open>
  C2: the code at a run that ends with exit status 3. The call returns when
  \<^verbatim>\<open>session.Run\<close> returns the error; no \<^verbatim>\<open>rm -f\<close> is run and the staged file
  stays on the host.
\<close>

theorem ExecuteScript_nonzero_exit_skips_cleanup:
  "ExecuteScript (sampleEnv\<lparr>session_Run := \<lambda>cmd. ([], ''not ready'', Exited 3)\<rparr>)
     (Client 1) ''exit 3'' [] False =
   (([], ''not ready'', Some (ExitError 3)),
    [NewSession, SftpNewClient, SftpCreate ''/tmp/tmp.0000000000000000'',
     SftpWrite ''/tmp/tmp.0000000000000000'' ''exit 3'',
     SftpClose ''/tmp/tmp.0000000000000000'', CloseSession, CloseSession,
     NewSession,
     Run ''chmod +x /tmp/tmp.0000000000000000 && /tmp/tmp.0000000000000000'',
     CloseSession])"
proof -
  let ?env = "sampleEnv\<lparr>session_Run := \<lambda>cmd. ([], ''not ready'', Exited 3)\<rparr>"
  have f: "stagedFile ?env = ''/tmp/tmp.0000000000000000''"
    by (rule sample_stagedFile) (simp add: sampleEnv_def)
  have s: "staged ?env ''exit 3'' []" by (simp add: staged_def sampleEnv_def)
  have r: "scriptRun ?env False = ([], ''not ready'', Exited 3)" by (simp add: scriptRun_def)
  from ExecuteScript_failed_run[OF s r, of "ExitError 3" "Client 1"] f show ?thesis
    by (simp add: scriptCommand_def)
qed

text \<open>
  C7: the code at a run that prints to standard output and ends with exit
  status 1. The first component of the result is the empty string.
\<close>

theorem ExecuteScript_nonzero_exit_drops_stdout:
  "fst (scriptRun
     (sampleEnv\<lparr>session_Run := \<lambda>cmd. (''File does not exist\<newline>'', [], Exited 1)\<rparr>) False) =
     ''File does not exist\<newline>'' \<and>
   fst (ExecuteScript
     (sampleEnv\<lparr>session_Run := \<lambda>cmd. (''File does not exist\<newline>'', [], Exited 1)\<rparr>)
     (Client 1) ''echo File does not exist; exit 1'' [] False) =
     ([], [], Some (ExitError 1))"
proof -
  let ?env = "sampleEnv\<lparr>session_Run := \<lambda>cmd. (''File does not exist\<newline>'', [], Exited 1)\<rparr>"
  let ?sc = "''echo File does not exist; exit 1''"
  have s: "staged ?env ?sc []" by (simp add: staged_def sampleEnv_def)
  have r: "scriptRun ?env False = (''File does not exist\<newline>'', [], Exited 1)"
    by (simp add: scriptRun_def)
  from ExecuteScript_failed_run[OF s r, of "ExitError 1" "Client 1"] r show ?thesis
    by simp
qed











text \<open>
  C8, as it holds of the code. For a resource with an empty status-check script that is not
  being deleted, \<^verbatim>\<open>Observe\<close> reports ``exists and up to date'', leaves the
  resource as it is and only writes two log entries; and whether or not the
  resource is being deleted, nothing reaches the remote host.
\<close>

theorem Observe_without_status_check:
  assumes "StatusCheckScript (ForProvider cr) = []"
  shows "(\<not> beingDeleted cr \<longrightarrow>
            Observe env service (ScriptResource cr) =
              (Returned (\<lparr>ResourceExists = True, ResourceUpToDate = True,
                          ConnectionDetails = Some []\<rparr>, None),
               ScriptResource cr,
               [Log ''[%s] Observing...'', Log ''[%s] Observing, no status check script.''])) \<and>
         remoteEvents (snd (snd (Observe env service (ScriptResource cr)))) = []"
  using assms by (auto simp: Observe_def beingDeleted_def Let_def noObservation_def)

theorem Observe_without_status_check_witness:
  "StatusCheckScript (ForProvider
     (sampleScript\<lparr>ForProvider := (ForProvider sampleScript)\<lparr>StatusCheckScript := []\<rparr>\<rparr>)) = [] \<and>
   \<not> beingDeleted (sampleScript\<lparr>ForProvider := (ForProvider sampleScript)\<lparr>StatusCheckScript := []\<rparr>\<rparr>) \<and>
   fst (Observe sampleEnv (Some (Client 1))
     (ScriptResource
        (sampleScript\<lparr>ForProvider := (ForProvider sampleScript)\<lparr>StatusCheckScript := []\<rparr>\<rparr>))) =
     Returned (\<lparr>ResourceExists = True, ResourceUpToDate = True, ConnectionDetails = Some []\<rparr>, None) \<and>
   remoteEvents (snd (snd (Observe sampleEnv (Some (Client 1))
     (ScriptResource
        (sampleScript\<lparr>ForProvider := (ForProvider sampleScript)\<lparr>StatusCheckScript := []\<rparr>\<rparr>))))) = []"
proof -
  let ?cr = "sampleScript\<lparr>ForProvider := (ForProvider sampleScript)\<lparr>StatusCheckScript := []\<rparr>\<rparr>"
  have e: "StatusCheckScript (ForProvider ?cr) = []" by simp
  have d: "\<not> beingDeleted ?cr"
    by (simp add: beingDeleted_def GetCondition_def sampleScript_def Deleting_def)
  from Observe_without_status_check[OF e, of sampleEnv "Some (Client 1)"] d show ?thesis
    by simp
qed

theorem Observe_deleting_counterexample:
  "StatusCheckScript (ForProvider
     (sampleScript\<lparr>ForProvider := (ForProvider sampleScript)\<lparr>StatusCheckScript := []\<rparr>,
                   Conditions := [Deleting]\<rparr>)) = [] \<and>
   fst (Observe sampleEnv (Some (Client 1))
     (ScriptResource
        (sampleScript\<lparr>ForProvider := (ForProvider sampleScript)\<lparr>StatusCheckScript := []\<rparr>,
                      Conditions := [Deleting]\<rparr>))) =
     Returned (\<lparr>ResourceExists = False, ResourceUpToDate = False, ConnectionDetails = None\<rparr>, None)"
  by (simp add: Observe_def GetCondition_def Deleting_def noObservation_def Let_def)


end
